theory Spec2Isabelle
  imports Main "HOL-Library.AList"
begin

section \<open>The Fever Smart Bluetooth integration\<close>

text \<open>
  A shallow embedding of the three modules of
  \<^verbatim>\<open>homeassistant/components/fever_smart\<close>: \<^verbatim>\<open>sensor.py\<close> (the translation of a sensor
  update into the host's update model and the sensor entity), \<^verbatim>\<open>coordinator.py\<close> (the
  registration of the Bluetooth callbacks) and \<^verbatim>\<open>config_flow.py\<close> (the setup wizard).

  Conventions. A Python \<^verbatim>\<open>dict\<close> is an association list in insertion order;
  \<^verbatim>\<open>d[k] = v\<close> is \<^const>\<open>AList.update\<close> (it replaces the value of a key in place and appends
  a new key at the end), a lookup is \<^const>\<open>map_of\<close>. A dict never holds a key twice:
  \<open>distinct (map fst d)\<close>. A value of type \<^verbatim>\<open>str | None\<close> is a \<^typ>\<open>string option\<close>.
  An exception is the \<open>Inl\<close> branch of a sum. A leading underscore of a Python name
  is dropped, since an Isabelle name cannot start with one.
\<close>

subsection \<open>Exceptions\<close>

datatype error =
    AssertionError
  | KeyError string
  | AbortFlow string

subsection \<open>The records of the \<^verbatim>\<open>sensor_state_data\<close> library\<close>

text \<open>
  \<^verbatim>\<open>SSDSensorDeviceClass\<close> and \<^verbatim>\<open>Units\<close> are string enumerations of the library. The
  members this integration names are constructors; every other member is
  \<open>OtherDeviceClass\<close> or \<open>OtherUnit\<close> with its string value.
\<close>

datatype SSDSensorDeviceClass =
    TEMPERATURE
  | BATTERY
  | SIGNAL_STRENGTH
  | OtherDeviceClass string

datatype Units =
    TEMP_CELSIUS
  | PERCENTAGE
  | SIGNAL_STRENGTH_DECIBELS_MILLIWATT
  | OtherUnit string

text \<open>The string value of a member, which an f-string prints.\<close>

fun str_device_class :: "SSDSensorDeviceClass \<Rightarrow> string" where
  "str_device_class TEMPERATURE = ''temperature''"
| "str_device_class BATTERY = ''battery''"
| "str_device_class SIGNAL_STRENGTH = ''signal_strength''"
| "str_device_class (OtherDeviceClass s) = s"

fun str_units :: "Units \<Rightarrow> string" where
  "str_units TEMP_CELSIUS = [CHR 0xB0, CHR ''C'']"
| "str_units PERCENTAGE = ''%''"
| "str_units SIGNAL_STRENGTH_DECIBELS_MILLIWATT = ''dBm''"
| "str_units (OtherUnit s) = s"

text \<open>\<^verbatim>\<open>DeviceKey(key: str, device_id: str | None)\<close>\<close>

record DeviceKey =
  dk_key :: string
  dk_device_id :: "string option"

text \<open>\<^verbatim>\<open>SensorDescription(device_key, device_class, native_unit_of_measurement)\<close>\<close>

record SensorDescription =
  sd_device_key :: DeviceKey
  sd_device_class :: "SSDSensorDeviceClass option"
  sd_native_unit_of_measurement :: "Units option"

text \<open>
  \<^verbatim>\<open>SensorValue(device_key, name, native_value)\<close>. The native value is carried through
  untouched, so its type is left open.
\<close>

record 'v SensorValue =
  sv_device_key :: DeviceKey
  sv_name :: string
  sv_native_value :: 'v

text \<open>\<^verbatim>\<open>SensorDeviceInfo\<close>: every field is \<^verbatim>\<open>str | None\<close>.\<close>

record SensorDeviceInfo =
  sdi_name :: "string option"
  sdi_model :: "string option"
  sdi_manufacturer :: "string option"
  sdi_sw_version :: "string option"
  sdi_hw_version :: "string option"

text \<open>\<^verbatim>\<open>SensorUpdate\<close>, with the fields the translation reads and its title.\<close>

record 'v SensorUpdate =
  su_title :: "string option"
  su_devices :: "(string option \<times> SensorDeviceInfo) list"
  su_entity_descriptions :: "(DeviceKey \<times> SensorDescription) list"
  su_entity_values :: "(DeviceKey \<times> 'v SensorValue) list"

subsection \<open>The records of the host framework\<close>

datatype SensorDeviceClass =
    HA_TEMPERATURE
  | HA_BATTERY
  | HA_SIGNAL_STRENGTH
  | HA_OtherDeviceClass string

datatype SensorStateClass = MEASUREMENT | TOTAL | TOTAL_INCREASING

datatype EntityCategory = CONFIG | DIAGNOSTIC

text \<open>
  The unit of a host entity description is a string; the three descriptions of this
  integration take it from \<^verbatim>\<open>UnitOfTemperature.CELSIUS\<close>, from the constant
  \<^verbatim>\<open>PERCENTAGE\<close> of \<^verbatim>\<open>homeassistant.const\<close> and from a member of \<^verbatim>\<open>Units\<close>.
\<close>

datatype native_unit =
    UnitOfTemperature_CELSIUS
  | HA_PERCENTAGE
  | SSD_Units Units

text \<open>
  \<^verbatim>\<open>SensorEntityDescription\<close>: \<^verbatim>\<open>entity_registry_enabled_default\<close> defaults to
  \<^verbatim>\<open>True\<close> and \<^verbatim>\<open>entity_category\<close> to \<^verbatim>\<open>None\<close>.
\<close>

record SensorEntityDescription =
  sed_key :: string
  sed_device_class :: "SensorDeviceClass option"
  sed_native_unit_of_measurement :: "native_unit option"
  sed_state_class :: "SensorStateClass option"
  sed_entity_registry_enabled_default :: bool
  sed_entity_category :: "EntityCategory option"

text \<open>\<^verbatim>\<open>PassiveBluetoothEntityKey(key: str, device_id: str | None)\<close>, a named tuple.\<close>

record PassiveBluetoothEntityKey =
  ek_key :: string
  ek_device_id :: "string option"

text \<open>
  What a Python set of identifiers holds in this integration: a string, \<^verbatim>\<open>None\<close>, or a
  pair of strings. Values of different shapes are never equal in Python, as the
  constructors are never equal here.
\<close>

datatype py_value =
    PyNone
  | PyStr string
  | PyTuple string string

fun py_of_optional_str :: "string option \<Rightarrow> py_value" where
  "py_of_optional_str None = PyNone"
| "py_of_optional_str (Some s) = PyStr s"

text \<open>
  \<^verbatim>\<open>DeviceInfo\<close> is a typed dict whose keys are all optional: a field is \<open>None\<close> when
  the key is absent and \<open>Some v\<close> when it holds \<open>v\<close>.
\<close>

record DeviceInfo =
  di_name :: "py_value option"
  di_manufacturer :: "py_value option"
  di_model :: "py_value option"
  di_sw_version :: "py_value option"
  di_identifiers :: "py_value set option"

definition DeviceInfo_empty :: DeviceInfo where
  "DeviceInfo_empty =
     \<lparr>di_name = None, di_manufacturer = None, di_model = None, di_sw_version = None,
      di_identifiers = None\<rparr>"

record 'v PassiveBluetoothDataUpdate =
  pu_devices :: "(string option \<times> DeviceInfo) list"
  pu_entity_descriptions :: "(PassiveBluetoothEntityKey \<times> SensorEntityDescription) list"
  pu_entity_names :: "(PassiveBluetoothEntityKey \<times> string) list"
  pu_entity_data :: "(PassiveBluetoothEntityKey \<times> 'v) list"

subsection \<open>\<^verbatim>\<open>sensor.py\<close>\<close>

text \<open>
  Modelled from the spec: \<^verbatim>\<open>const.py\<close> of the integration is not among the sources;
  \<^verbatim>\<open>DOMAIN\<close> is the name of the integration's package.
\<close>

definition DOMAIN :: string where
  "DOMAIN = ''fever_smart''"

definition SENSOR_DESCRIPTIONS ::
  "((SSDSensorDeviceClass \<times> Units option) \<times> SensorEntityDescription) list" where
  "SENSOR_DESCRIPTIONS =
   [((TEMPERATURE, Some TEMP_CELSIUS),
       \<lparr>sed_key = str_device_class TEMPERATURE @ ''_'' @ str_units TEMP_CELSIUS,
        sed_device_class = Some HA_TEMPERATURE,
        sed_native_unit_of_measurement = Some UnitOfTemperature_CELSIUS,
        sed_state_class = Some MEASUREMENT,
        sed_entity_registry_enabled_default = True,
        sed_entity_category = None\<rparr>),
    ((BATTERY, Some PERCENTAGE),
       \<lparr>sed_key = str_device_class BATTERY @ ''_'' @ str_units PERCENTAGE,
        sed_device_class = Some HA_BATTERY,
        sed_native_unit_of_measurement = Some HA_PERCENTAGE,
        sed_state_class = Some MEASUREMENT,
        sed_entity_registry_enabled_default = True,
        sed_entity_category = None\<rparr>),
    ((SIGNAL_STRENGTH, Some SIGNAL_STRENGTH_DECIBELS_MILLIWATT),
       \<lparr>sed_key = str_device_class SIGNAL_STRENGTH @ ''_''
                   @ str_units SIGNAL_STRENGTH_DECIBELS_MILLIWATT,
        sed_device_class = Some HA_SIGNAL_STRENGTH,
        sed_native_unit_of_measurement = Some (SSD_Units SIGNAL_STRENGTH_DECIBELS_MILLIWATT),
        sed_state_class = Some MEASUREMENT,
        sed_entity_registry_enabled_default = False,
        sed_entity_category = Some DIAGNOSTIC\<rparr>)]"

definition device_key_to_bluetooth_entity_key :: "DeviceKey \<Rightarrow> PassiveBluetoothEntityKey" where
  "device_key_to_bluetooth_entity_key device_key =
     \<lparr>ek_key = dk_key device_key, ek_device_id = dk_device_id device_key\<rparr>"

text \<open>\<^verbatim>\<open>assert description.device_class is not None\<close> raises on a missing device class.\<close>

definition to_sensor_key ::
  "SensorDescription \<Rightarrow> error + (SSDSensorDeviceClass \<times> Units option)" where
  "to_sensor_key description =
     (case sd_device_class description of
        None \<Rightarrow> Inl AssertionError
      | Some device_class \<Rightarrow> Inr (device_class, sd_native_unit_of_measurement description))"

text \<open>
  The four conditional assignments and the assignment of the identifiers, in the
  order of the source. \<^verbatim>\<open>{DOMAIN, device_id}\<close> is the set of the two values.
\<close>

definition sensor_device_info_to_hass_device_info ::
  "SensorDeviceInfo \<Rightarrow> string option \<Rightarrow> DeviceInfo" where
  "sensor_device_info_to_hass_device_info sensor_device_info device_id =
     (let device_info = DeviceInfo_empty;
          device_info = (case sdi_name sensor_device_info of
                           None \<Rightarrow> device_info
                         | Some n \<Rightarrow> device_info\<lparr>di_name := Some (PyStr n)\<rparr>);
          device_info = (case sdi_manufacturer sensor_device_info of
                           None \<Rightarrow> device_info
                         | Some m \<Rightarrow> device_info\<lparr>di_manufacturer := Some (PyStr m)\<rparr>);
          device_info = (case sdi_model sensor_device_info of
                           None \<Rightarrow> device_info
                         | Some m \<Rightarrow> device_info\<lparr>di_model := Some (PyStr m)\<rparr>);
          device_info = (case sdi_sw_version sensor_device_info of
                           None \<Rightarrow> device_info
                         | Some v \<Rightarrow> device_info\<lparr>di_sw_version := Some (PyStr v)\<rparr>)
      in device_info\<lparr>di_identifiers := Some {PyStr DOMAIN, py_of_optional_str device_id}\<rparr>)"

text \<open>
  The dict comprehensions of \<^verbatim>\<open>sensor_update_to_bluetooth_data_update\<close>, each a loop
  over the items of a dict that stores into the dict under construction.
\<close>

definition devices_comprehension ::
  "(string option \<times> SensorDeviceInfo) list \<Rightarrow> (string option \<times> DeviceInfo) list" where
  "devices_comprehension items =
     fold (\<lambda>(device_id, device_info).
             AList.update device_id (sensor_device_info_to_hass_device_info device_info device_id))
          items []"

text \<open>
  The comprehension of the entity descriptions evaluates its condition on every item,
  and the condition calls \<open>to_sensor_key\<close>, which may raise.
\<close>

fun entity_descriptions_comprehension ::
  "(DeviceKey \<times> SensorDescription) list
   \<Rightarrow> (PassiveBluetoothEntityKey \<times> SensorEntityDescription) list
   \<Rightarrow> error + (PassiveBluetoothEntityKey \<times> SensorEntityDescription) list" where
  "entity_descriptions_comprehension [] acc = Inr acc"
| "entity_descriptions_comprehension ((device_key, description) # items) acc =
     (case to_sensor_key description of
        Inl e \<Rightarrow> Inl e
      | Inr sensor_key \<Rightarrow>
          (case map_of SENSOR_DESCRIPTIONS sensor_key of
             None \<Rightarrow> entity_descriptions_comprehension items acc
           | Some d \<Rightarrow>
               entity_descriptions_comprehension items
                 (AList.update (device_key_to_bluetooth_entity_key device_key) d acc)))"

definition entity_data_comprehension ::
  "(DeviceKey \<times> 'v SensorValue) list \<Rightarrow> (PassiveBluetoothEntityKey \<times> 'v) list" where
  "entity_data_comprehension items =
     fold (\<lambda>(device_key, sensor_values).
             AList.update (device_key_to_bluetooth_entity_key device_key)
               (sv_native_value sensor_values))
          items []"

definition entity_names_comprehension ::
  "(DeviceKey \<times> 'v SensorValue) list \<Rightarrow> (PassiveBluetoothEntityKey \<times> string) list" where
  "entity_names_comprehension items =
     fold (\<lambda>(device_key, sensor_values).
             AList.update (device_key_to_bluetooth_entity_key device_key) (sv_name sensor_values))
          items []"

definition sensor_update_to_bluetooth_data_update ::
  "'v SensorUpdate \<Rightarrow> error + 'v PassiveBluetoothDataUpdate" where
  "sensor_update_to_bluetooth_data_update sensor_update =
     (let devices = devices_comprehension (su_devices sensor_update)
      in case entity_descriptions_comprehension (su_entity_descriptions sensor_update) [] of
           Inl e \<Rightarrow> Inl e
         | Inr entity_descriptions \<Rightarrow>
             Inr \<lparr>pu_devices = devices,
                  pu_entity_descriptions = entity_descriptions,
                  pu_entity_names = entity_names_comprehension (su_entity_values sensor_update),
                  pu_entity_data = entity_data_comprehension (su_entity_values sensor_update)\<rparr>)"

text \<open>How an f-string prints a value of type \<^verbatim>\<open>str | None\<close>.\<close>

fun format_str :: "string option \<Rightarrow> string" where
  "format_str None = ''None''"
| "format_str (Some s) = s"

text \<open>
  The entity. \<^verbatim>\<open>super().__init__\<close> belongs to the host framework: it is the parameter
  \<open>super_init\<close>, which builds the object that the body then assigns to. Whatever else
  the base classes keep (the processor, the description, the context) is \<open>se_base\<close>.
\<close>

record 'b FeverSmartBluetoothSensorEntity =
  se_entity_key :: PassiveBluetoothEntityKey
  se_attr_device_info :: "DeviceInfo option"
  se_attr_unique_id :: "string option"
  se_base :: 'b

definition FeverSmartBluetoothSensorEntity_init ::
  "('p \<Rightarrow> PassiveBluetoothEntityKey \<Rightarrow> 'd \<Rightarrow> 'c \<Rightarrow> 'b FeverSmartBluetoothSensorEntity)
   \<Rightarrow> 'p \<Rightarrow> PassiveBluetoothEntityKey \<Rightarrow> 'd \<Rightarrow> 'c \<Rightarrow> 'b FeverSmartBluetoothSensorEntity" where
  "FeverSmartBluetoothSensorEntity_init super_init processor entity_key description context =
     (let self = super_init processor entity_key description context;
          device_id = ek_device_id entity_key;
          key = ek_key entity_key;
          device_info =
            DeviceInfo_empty\<lparr>di_identifiers := Some {PyTuple DOMAIN (format_str device_id)}\<rparr>;
          unique_id = format_str device_id @ ''-'' @ key;
          device_info = (if di_name device_info = None
                         then device_info\<lparr>di_name := Some (py_of_optional_str device_id)\<rparr>
                         else device_info)
      in self\<lparr>se_attr_device_info := Some device_info, se_attr_unique_id := Some unique_id\<rparr>)"

subsection \<open>\<^verbatim>\<open>coordinator.py\<close>\<close>

datatype BluetoothScanningMode = PASSIVE | ACTIVE

text \<open>\<^verbatim>\<open>BluetoothCallbackMatcher\<close> is a typed dict whose keys are all optional.\<close>

record BluetoothCallbackMatcher =
  bm_address :: "string option"
  bm_local_name :: "string option"
  bm_service_uuid :: "string option"
  bm_service_data_uuid :: "string option"
  bm_manufacturer_id :: "int option"
  bm_manufacturer_data_start :: "int list option"
  bm_connectable :: "bool option"

definition BluetoothCallbackMatcher_empty :: BluetoothCallbackMatcher where
  "BluetoothCallbackMatcher_empty =
     \<lparr>bm_address = None, bm_local_name = None, bm_service_uuid = None,
      bm_service_data_uuid = None, bm_manufacturer_id = None,
      bm_manufacturer_data_start = None, bm_connectable = None\<rparr>"

text \<open>The two bound methods of the coordinator that are handed to the Bluetooth API.\<close>

datatype coordinator_method = async_handle_bluetooth_event | async_handle_unavailable

text \<open>What the Bluetooth manager of the host holds: one entry for each call of its API.\<close>

datatype registration =
    Callback coordinator_method BluetoothCallbackMatcher BluetoothScanningMode
  | Unavailable coordinator_method string bool

text \<open>
  Modelled from the spec: \<^verbatim>\<open>async_register_callback\<close> and \<^verbatim>\<open>async_track_unavailable\<close> of
  \<^verbatim>\<open>homeassistant.components.bluetooth.api\<close> are not among the sources. Each records
  its arguments with the manager and returns a cancel handle, here the position of
  the record.
\<close>

definition async_register_callback ::
  "registration list \<Rightarrow> coordinator_method \<Rightarrow> BluetoothCallbackMatcher \<Rightarrow> BluetoothScanningMode
   \<Rightarrow> registration list \<times> nat" where
  "async_register_callback hass cb match_dict mode =
     (hass @ [Callback cb match_dict mode], length hass)"

definition async_track_unavailable ::
  "registration list \<Rightarrow> coordinator_method \<Rightarrow> string \<Rightarrow> bool \<Rightarrow> registration list \<times> nat" where
  "async_track_unavailable hass cb address connectable =
     (hass @ [Unavailable cb address connectable], length hass)"

record FeverSmartPassiveBluetoothProcessorCoordinator =
  co_address :: string
  co_mode :: BluetoothScanningMode
  co_connectable :: bool
  co_on_stop :: "nat list"

definition async_start ::
  "registration list \<Rightarrow> FeverSmartPassiveBluetoothProcessorCoordinator
   \<Rightarrow> registration list \<times> FeverSmartPassiveBluetoothProcessorCoordinator" where
  "async_start hass self =
     (let (hass, cancel) =
            async_register_callback hass async_handle_bluetooth_event
              (BluetoothCallbackMatcher_empty
                 \<lparr>bm_manufacturer_id := Some 8199, bm_connectable := Some False\<rparr>)
              (co_mode self);
          self = self\<lparr>co_on_stop := co_on_stop self @ [cancel]\<rparr>;
          (hass, cancel) =
            async_track_unavailable hass async_handle_unavailable
              (co_address self) (co_connectable self);
          self = self\<lparr>co_on_stop := co_on_stop self @ [cancel]\<rparr>
      in (hass, self))"

text \<open>The callbacks for Bluetooth advertisements among the entries of the manager.\<close>

fun is_callback :: "registration \<Rightarrow> bool" where
  "is_callback (Callback _ _ _) = True"
| "is_callback (Unavailable _ _ _) = False"

subsection \<open>\<^verbatim>\<open>config_flow.py\<close>\<close>

record BluetoothServiceInfo =
  si_name :: string
  si_address :: string
  si_rssi :: int
  si_manufacturer_data :: "(int \<times> nat list) list"
  si_service_data :: "(string \<times> nat list) list"
  si_service_uuids :: "string list"
  si_source :: string

text \<open>
  \<^verbatim>\<open>FeverSmartAdvParser\<close> belongs to the library \<^verbatim>\<open>pyfeversmart\<close>. A flow builds a fresh
  parser and calls \<^verbatim>\<open>supported(discovery_info)\<close> on it; the functions of the flow take
  as the parameter \<open>parse\<close> the map from the advertisement to the parser as that call
  leaves it: what the call returned, and what the parser then answers for
  \<^verbatim>\<open>primary_device_id\<close>, \<^verbatim>\<open>title\<close> and \<^verbatim>\<open>get_device_name()\<close>.
\<close>

record FeverSmartAdvParser =
  ap_supported :: bool
  ap_primary_device_id :: string
  ap_title :: "string option"
  ap_get_device_name :: "string option"

text \<open>\<^verbatim>\<open>a or b\<close> where \<open>a\<close> is \<^verbatim>\<open>str | None\<close> and \<open>b\<close> a string: \<open>a\<close> unless it is \<^verbatim>\<open>None\<close> or empty.\<close>

fun py_or :: "string option \<Rightarrow> string \<Rightarrow> string" where
  "py_or None b = b"
| "py_or (Some a) b = (if a = [] then b else a)"

datatype validator = All_str_Strip | In "(string \<times> string) list"

datatype FlowResult =
    Abort string
  | Form string "(string \<times> validator) list" "(string \<times> string) list option"
      "(string \<times> string) list option"
  | CreateEntry string "(string \<times> string) list"

text \<open>The keys of \<^verbatim>\<open>self.context\<close> that the flow reads or writes.\<close>

record FlowContext =
  ctx_unique_id :: "string option"
  ctx_title_placeholders :: "(string \<times> string) list option"
  ctx_entry_id :: "string option"

record ConfigFlow =
  cf_discovery_info :: "BluetoothServiceInfo option"
  cf_discovered_device :: "FeverSmartAdvParser option"
  cf_discovered_devices :: "(string \<times> string) list"
  cf_context :: FlowContext

text \<open>
  What the flow sees of the host: the unique IDs of the configured entries of the
  domain (\<^verbatim>\<open>_async_current_ids()\<close>), the advertisements seen so far
  (\<^verbatim>\<open>async_discovered_service_info(hass, False)\<close>), the data of the config entries by
  entry ID, and the reloads handed to \<^verbatim>\<open>async_create_task\<close>.
\<close>

record HomeAssistant =
  ha_current_ids :: "string list"
  ha_discovered_service_info :: "BluetoothServiceInfo list"
  ha_config_entries :: "(string \<times> (string \<times> string) list) list"
  ha_reloads :: "string list"

text \<open>\<^verbatim>\<open>CONF_ADDRESS\<close> of \<^verbatim>\<open>homeassistant.const\<close>.\<close>

definition CONF_ADDRESS :: string where
  "CONF_ADDRESS = ''address''"

text \<open>\<^verbatim>\<open>__init__\<close>; the context is the one the framework created the flow with.\<close>

definition ConfigFlow_init :: "FlowContext \<Rightarrow> ConfigFlow" where
  "ConfigFlow_init context =
     \<lparr>cf_discovery_info = None, cf_discovered_device = None, cf_discovered_devices = [],
      cf_context = context\<rparr>"

text \<open>
  Modelled from the spec: \<^verbatim>\<open>async_set_unique_id\<close> and
  \<^verbatim>\<open>_abort_if_unique_id_configured\<close> of the base class in
  \<^verbatim>\<open>homeassistant.config_entries\<close> are not among the sources. The first records the
  unique ID in the context of the flow (its keyword \<^verbatim>\<open>raise_on_progress\<close> concerns the
  other flows in progress, which the host tracks and which are left out here); the
  second raises \<^verbatim>\<open>AbortFlow\<close> when the unique ID of the flow is the unique ID of a
  configured entry.
\<close>

definition async_set_unique_id :: "ConfigFlow \<Rightarrow> string \<Rightarrow> ConfigFlow" where
  "async_set_unique_id self unique_id =
     self\<lparr>cf_context := (cf_context self)\<lparr>ctx_unique_id := Some unique_id\<rparr>\<rparr>"

definition abort_if_unique_id_configured :: "HomeAssistant \<Rightarrow> ConfigFlow \<Rightarrow> error + unit" where
  "abort_if_unique_id_configured hass self =
     (case ctx_unique_id (cf_context self) of
        None \<Rightarrow> Inr ()
      | Some unique_id \<Rightarrow>
          if unique_id \<in> set (ha_current_ids hass)
          then Inl (AbortFlow ''already_configured'') else Inr ())"

text \<open>
  \<^verbatim>\<open>_async_get_or_create_entry(key)\<close>. \<^verbatim>\<open>if key:\<close> holds for a string that is not empty,
  and so does the test of \<^verbatim>\<open>self.context.get("entry_id")\<close>. With an entry ID the data
  of that entry is replaced and its reload is scheduled; without one, \<open>create_entry\<close>
  is the final \<^verbatim>\<open>return self.async_create_entry(...)\<close>.
\<close>

definition async_get_or_create_entry ::
  "HomeAssistant \<Rightarrow> ConfigFlow \<Rightarrow> string option
   \<Rightarrow> (error + FlowResult) \<times> HomeAssistant \<times> ConfigFlow" where
  "async_get_or_create_entry hass self key =
     (let data = (case key of
                    None \<Rightarrow> []
                  | Some k \<Rightarrow> if k = [] then [] else AList.update ''key'' k []);
          create_entry =
            (case ctx_title_placeholders (cf_context self) of
               None \<Rightarrow> (Inl (KeyError ''title_placeholders''), hass, self)
             | Some placeholders \<Rightarrow>
                 (case map_of placeholders ''name'' of
                    None \<Rightarrow> (Inl (KeyError ''name''), hass, self)
                  | Some title \<Rightarrow> (Inr (CreateEntry title data), hass, self)))
      in case ctx_entry_id (cf_context self) of
           None \<Rightarrow> create_entry
         | Some entry_id \<Rightarrow>
             if entry_id = [] then create_entry
             else (case map_of (ha_config_entries hass) entry_id of
                     None \<Rightarrow> (Inl AssertionError, hass, self)
                   | Some entry \<Rightarrow>
                       (Inr (Abort ''reauth_successful''),
                        hass\<lparr>ha_config_entries :=
                                AList.update entry_id data (ha_config_entries hass),
                              ha_reloads := ha_reloads hass @ [entry_id]\<rparr>,
                        self)))"

definition async_step_bluetooth_confirm ::
  "HomeAssistant \<Rightarrow> ConfigFlow \<Rightarrow> (string \<times> string) list option
   \<Rightarrow> (error + FlowResult) \<times> HomeAssistant \<times> ConfigFlow" where
  "async_step_bluetooth_confirm hass self user_input =
     (case cf_discovered_device self of
        None \<Rightarrow> (Inl AssertionError, hass, self)
      | Some device \<Rightarrow>
          (case cf_discovery_info self of
             None \<Rightarrow> (Inl AssertionError, hass, self)
           | Some discovery_info \<Rightarrow>
               (case user_input of
                  Some input \<Rightarrow>
                    (case map_of input ''key'' of
                       None \<Rightarrow> (Inl (KeyError ''key''), hass, self)
                     | Some key \<Rightarrow> async_get_or_create_entry hass self (Some key))
                | None \<Rightarrow>
                    (let title = py_or (ap_title device)
                                   (py_or (ap_get_device_name device) (si_name discovery_info));
                         placeholders = [(''name'', title)];
                         self = self\<lparr>cf_context :=
                                  (cf_context self)\<lparr>ctx_title_placeholders := Some placeholders\<rparr>\<rparr>
                     in (Inr (Form ''bluetooth_confirm'' [(''key'', All_str_Strip)]
                                (Some placeholders) (Some [])),
                         hass, self)))))"

definition async_step_bluetooth ::
  "(BluetoothServiceInfo \<Rightarrow> FeverSmartAdvParser) \<Rightarrow> HomeAssistant \<Rightarrow> ConfigFlow
   \<Rightarrow> BluetoothServiceInfo \<Rightarrow> (error + FlowResult) \<times> HomeAssistant \<times> ConfigFlow" where
  "async_step_bluetooth parse hass self discovery_info =
     (let device = parse discovery_info
      in if \<not> ap_supported device then (Inr (Abort ''not_supported''), hass, self)
         else
           (let self = async_set_unique_id self (ap_primary_device_id device)
            in case abort_if_unique_id_configured hass self of
                 Inl e \<Rightarrow> (Inl e, hass, self)
               | Inr _ \<Rightarrow>
                   async_step_bluetooth_confirm hass
                     (self\<lparr>cf_discovery_info := Some discovery_info,
                            cf_discovered_device := Some device\<rparr>)
                     None))"

text \<open>The loop of \<^verbatim>\<open>async_step_user\<close> over the advertisements seen so far.\<close>

fun scan_discovered ::
  "(BluetoothServiceInfo \<Rightarrow> FeverSmartAdvParser) \<Rightarrow> string list \<Rightarrow> BluetoothServiceInfo list
   \<Rightarrow> (string \<times> string) list \<Rightarrow> (string \<times> string) list" where
  "scan_discovered parse current_addresses [] discovered_devices = discovered_devices"
| "scan_discovered parse current_addresses (discovery_info # rest) discovered_devices =
     (let address = si_address discovery_info
      in if address \<in> set current_addresses \<or> address \<in> fst ` set discovered_devices
         then scan_discovered parse current_addresses rest discovered_devices
         else
           (let device = parse discovery_info
            in if ap_supported device
               then scan_discovered parse current_addresses rest
                      (AList.update address
                         (py_or (ap_title device)
                            (py_or (ap_get_device_name device) (si_name discovery_info)))
                         discovered_devices)
               else scan_discovered parse current_addresses rest discovered_devices))"

definition async_step_user ::
  "(BluetoothServiceInfo \<Rightarrow> FeverSmartAdvParser) \<Rightarrow> HomeAssistant \<Rightarrow> ConfigFlow
   \<Rightarrow> (string \<times> string) list option \<Rightarrow> (error + FlowResult) \<times> HomeAssistant \<times> ConfigFlow" where
  "async_step_user parse hass self user_input =
     (case user_input of
        Some input \<Rightarrow>
          (case map_of input CONF_ADDRESS of
             None \<Rightarrow> (Inl (KeyError CONF_ADDRESS), hass, self)
           | Some address \<Rightarrow>
               (let self = async_set_unique_id self address
                in case abort_if_unique_id_configured hass self of
                     Inl e \<Rightarrow> (Inl e, hass, self)
                   | Inr _ \<Rightarrow>
                       (case map_of (cf_discovered_devices self) address of
                          None \<Rightarrow> (Inl (KeyError address), hass, self)
                        | Some name \<Rightarrow>
                            async_get_or_create_entry hass
                              (self\<lparr>cf_context :=
                                 (cf_context self)\<lparr>ctx_title_placeholders :=
                                                     Some [(''name'', name)]\<rparr>\<rparr>)
                              (Some ''0m0d3s2c''))))
      | None \<Rightarrow>
          (let current_addresses = ha_current_ids hass;
               self = self\<lparr>cf_discovered_devices :=
                        scan_discovered parse current_addresses
                          (ha_discovered_service_info hass) (cf_discovered_devices self)\<rparr>
           in if cf_discovered_devices self = []
              then (Inr (Abort ''no_devices_found''), hass, self)
              else (Inr (Form ''user'' [(CONF_ADDRESS, In (cf_discovered_devices self))]
                           None None),
                    hass, self)))"

subsection \<open>The translation of one entity description, as a function of the item\<close>

text \<open>
  What the comprehension of the entity descriptions stores for one item of
  \<^verbatim>\<open>sensor_update.entity_descriptions\<close> that has a device class: nothing when the pair
  of device class and unit is not a key of \<open>SENSOR_DESCRIPTIONS\<close>, the converted key
  with the description found there when it is. The loop is compared with it below.
\<close>

definition translated_description ::
  "DeviceKey \<times> SensorDescription \<Rightarrow> (PassiveBluetoothEntityKey \<times> SensorEntityDescription) option" where
  "translated_description item =
     (case sd_device_class (snd item) of
        None \<Rightarrow> None
      | Some device_class \<Rightarrow>
          map_option (Pair (device_key_to_bluetooth_entity_key (fst item)))
            (map_of SENSOR_DESCRIPTIONS
               (device_class, sd_native_unit_of_measurement (snd item))))"

subsection \<open>Example inputs\<close>

definition example_temperature_key :: DeviceKey where
  "example_temperature_key = \<lparr>dk_key = ''temperature'', dk_device_id = None\<rparr>"

definition example_humidity_key :: DeviceKey where
  "example_humidity_key = \<lparr>dk_key = ''humidity'', dk_device_id = None\<rparr>"

definition example_update :: "int SensorUpdate" where
  "example_update =
     \<lparr>su_title = Some ''Fever Smart'',
      su_devices =
        [(None, \<lparr>sdi_name = Some ''Fever Smart 1A2B'', sdi_model = None,
                 sdi_manufacturer = Some ''Nurofen'', sdi_sw_version = None,
                 sdi_hw_version = None\<rparr>)],
      su_entity_descriptions =
        [(example_temperature_key,
          \<lparr>sd_device_key = example_temperature_key, sd_device_class = Some TEMPERATURE,
           sd_native_unit_of_measurement = Some TEMP_CELSIUS\<rparr>),
         (example_humidity_key,
          \<lparr>sd_device_key = example_humidity_key,
           sd_device_class = Some (OtherDeviceClass ''humidity''),
           sd_native_unit_of_measurement = Some PERCENTAGE\<rparr>)],
      su_entity_values =
        [(example_temperature_key,
          \<lparr>sv_device_key = example_temperature_key, sv_name = ''Temperature'',
           sv_native_value = 37\<rparr>),
         (example_humidity_key,
          \<lparr>sv_device_key = example_humidity_key, sv_name = ''Humidity'',
           sv_native_value = 40\<rparr>)]\<rparr>"

definition example_update_without_device_class :: "int SensorUpdate" where
  "example_update_without_device_class =
     \<lparr>su_title = None,
      su_devices = [],
      su_entity_descriptions =
        [(example_temperature_key,
          \<lparr>sd_device_key = example_temperature_key, sd_device_class = None,
           sd_native_unit_of_measurement = Some TEMP_CELSIUS\<rparr>)],
      su_entity_values = []\<rparr>"

definition example_translated :: "int PassiveBluetoothDataUpdate" where
  "example_translated =
     \<lparr>pu_devices =
        [(None, \<lparr>di_name = Some (PyStr ''Fever Smart 1A2B''),
                 di_manufacturer = Some (PyStr ''Nurofen''), di_model = None,
                 di_sw_version = None,
                 di_identifiers = Some {PyStr ''fever_smart'', PyNone}\<rparr>)],
      pu_entity_descriptions =
        [(\<lparr>ek_key = ''temperature'', ek_device_id = None\<rparr>,
          \<lparr>sed_key = ''temperature_'' @ [CHR 0xB0, CHR ''C''],
           sed_device_class = Some HA_TEMPERATURE,
           sed_native_unit_of_measurement = Some UnitOfTemperature_CELSIUS,
           sed_state_class = Some MEASUREMENT,
           sed_entity_registry_enabled_default = True,
           sed_entity_category = None\<rparr>)],
      pu_entity_names =
        [(\<lparr>ek_key = ''temperature'', ek_device_id = None\<rparr>, ''Temperature''),
         (\<lparr>ek_key = ''humidity'', ek_device_id = None\<rparr>, ''Humidity'')],
      pu_entity_data =
        [(\<lparr>ek_key = ''temperature'', ek_device_id = None\<rparr>, 37),
         (\<lparr>ek_key = ''humidity'', ek_device_id = None\<rparr>, 40)]\<rparr>"

definition example_entity_key :: PassiveBluetoothEntityKey where
  "example_entity_key = \<lparr>ek_key = ''temperature'', ek_device_id = Some ''FS-1A2B''\<rparr>"

definition example_coordinator :: FeverSmartPassiveBluetoothProcessorCoordinator where
  "example_coordinator =
     \<lparr>co_address = ''AA:BB:CC:DD:EE:FF'', co_mode = PASSIVE, co_connectable = True,
      co_on_stop = []\<rparr>"

definition example_parse :: "BluetoothServiceInfo \<Rightarrow> FeverSmartAdvParser" where
  "example_parse discovery_info =
     \<lparr>ap_supported = (map_of (si_manufacturer_data discovery_info) 8199 \<noteq> None),
      ap_primary_device_id = si_name discovery_info,
      ap_title = Some (si_name discovery_info),
      ap_get_device_name = None\<rparr>"

definition example_fever_smart :: BluetoothServiceInfo where
  "example_fever_smart =
     \<lparr>si_name = ''FS-1A2B'', si_address = ''AA:BB:CC:DD:EE:FF'', si_rssi = - 60,
      si_manufacturer_data = [(8199, [1, 2, 3])], si_service_data = [],
      si_service_uuids = [], si_source = ''local''\<rparr>"

definition example_other_device :: BluetoothServiceInfo where
  "example_other_device =
     \<lparr>si_name = ''Headphones'', si_address = ''11:22:33:44:55:66'', si_rssi = - 70,
      si_manufacturer_data = [(76, [0])], si_service_data = [],
      si_service_uuids = [], si_source = ''local''\<rparr>"

definition example_context :: FlowContext where
  "example_context = \<lparr>ctx_unique_id = None, ctx_title_placeholders = None, ctx_entry_id = None\<rparr>"

definition example_hass :: "string list \<Rightarrow> HomeAssistant" where
  "example_hass current_ids =
     \<lparr>ha_current_ids = current_ids,
      ha_discovered_service_info = [example_other_device, example_fever_smart],
      ha_config_entries = [], ha_reloads = []\<rparr>"

definition example_flow_scanned :: ConfigFlow where
  "example_flow_scanned =
     (ConfigFlow_init example_context)
       \<lparr>cf_discovered_devices := [(''AA:BB:CC:DD:EE:FF'', ''FS-1A2B'')]\<rparr>"

definition example_flow_discovered :: ConfigFlow where
  "example_flow_discovered =
     \<lparr>cf_discovery_info = Some example_fever_smart,
      cf_discovered_device = Some (example_parse example_fever_smart),
      cf_discovered_devices = [],
      cf_context = \<lparr>ctx_unique_id = Some ''FS-1A2B'',
                     ctx_title_placeholders = Some [(''name'', ''FS-1A2B'')],
                     ctx_entry_id = None\<rparr>\<rparr>"

section \<open>Properties of the translation of a sensor update\<close>

subsection \<open>Dict comprehensions\<close>

text \<open>
  Storing under keys that are new and pairwise different appends the items in the
  order of the loop; the keys of the result depend on the keys stored only.
\<close>

lemma update_fresh: "k \<notin> fst ` set al \<Longrightarrow> AList.update k v al = al @ [(k, v)]"
  by (induction al) auto

lemma fold_update_fresh:
  "distinct (map (\<lambda>x. f (fst x)) xs) \<Longrightarrow> (\<forall>x\<in>set xs. f (fst x) \<notin> fst ` set acc)
   \<Longrightarrow> fold (\<lambda>(k, v). AList.update (f k) (g k v)) xs acc
       = acc @ map (\<lambda>(k, v). (f k, g k v)) xs"
proof (induction xs arbitrary: acc)
  case Nil
  then show ?case by simp
next
  case (Cons x xs)
  obtain k v where x: "x = (k, v)" by (cases x)
  have fresh: "f k \<notin> fst ` set acc" using Cons.prems(2) x by simp
  have step: "AList.update (f k) (g k v) acc = acc @ [(f k, g k v)]"
    using fresh by (rule update_fresh)
  have d: "distinct (map (\<lambda>x. f (fst x)) xs)" using Cons.prems(1) by simp
  have nf: "\<forall>y\<in>set xs. f (fst y) \<notin> fst ` set (acc @ [(f k, g k v)])"
    using Cons.prems x by (auto simp: image_iff)
  show ?case using Cons.IH [OF d nf] x step by simp
qed

lemma fold_update_keys:
  "map fst acc1 = map fst acc2
   \<Longrightarrow> map fst (fold (\<lambda>(k, v). AList.update (f k) (g1 k v)) xs acc1)
       = map fst (fold (\<lambda>(k, v). AList.update (f k) (g2 k v)) xs acc2)"
proof (induction xs arbitrary: acc1 acc2)
  case Nil
  then show ?case by simp
next
  case (Cons x xs)
  obtain k v where x: "x = (k, v)" by (cases x)
  have "map fst (AList.update (f k) (g1 k v) acc1) = map fst (AList.update (f k) (g2 k v) acc2)"
    using Cons.prems by (simp add: update_keys)
  from Cons.IH [OF this] show ?case using x by simp
qed

lemma fold_update_dom:
  "fst ` set (fold (\<lambda>(k, v). AList.update (f k) (g k v)) xs acc)
     = (\<lambda>x. f (fst x)) ` set xs \<union> fst ` set acc"
  by (induction xs arbitrary: acc) (auto simp: dom_update split: prod.splits)

lemma inj_device_key_to_bluetooth_entity_key: "inj device_key_to_bluetooth_entity_key"
  by (rule injI) (simp add: device_key_to_bluetooth_entity_key_def)


lemma translated_description_key:
  "translated_description x = Some y \<Longrightarrow> fst y = device_key_to_bluetooth_entity_key (fst x)"
  by (auto simp: translated_description_def split: option.splits)

lemma entity_descriptions_comprehension_list:
  "\<forall>x\<in>set xs. sd_device_class (snd x) \<noteq> None
   \<Longrightarrow> distinct (map fst xs)
   \<Longrightarrow> \<forall>x\<in>set xs. device_key_to_bluetooth_entity_key (fst x) \<notin> fst ` set acc
   \<Longrightarrow> entity_descriptions_comprehension xs acc
       = Inr (acc @ List.map_filter translated_description xs)"
proof (induction xs arbitrary: acc)
  case Nil
  then show ?case by simp
next
  case (Cons x xs)
  obtain dk d where x: "x = (dk, d)" by (cases x)
  obtain dc where dc: "sd_device_class d = Some dc" using Cons.prems(1) x by auto
  have rest: "\<forall>x\<in>set xs. sd_device_class (snd x) \<noteq> None" "distinct (map fst xs)"
    using Cons.prems by simp_all
  show ?case
  proof (cases "map_of SENSOR_DESCRIPTIONS (dc, sd_native_unit_of_measurement d)")
    case None
    have "\<forall>x\<in>set xs. device_key_to_bluetooth_entity_key (fst x) \<notin> fst ` set acc"
      using Cons.prems(3) by simp
    from Cons.IH [OF rest this] show ?thesis
      using x dc None
      by (simp add: to_sensor_key_def translated_description_def)
  next
    case (Some sed)
    let ?k = "device_key_to_bluetooth_entity_key dk"
    have "?k \<notin> fst ` set acc" using Cons.prems(3) x by simp
    then have upd: "AList.update ?k sed acc = acc @ [(?k, sed)]" by (rule update_fresh)
    have "\<forall>y\<in>set xs. fst y \<noteq> dk" using Cons.prems(2) x by auto
    then have "\<forall>y\<in>set xs. device_key_to_bluetooth_entity_key (fst y) \<noteq> ?k"
      using inj_device_key_to_bluetooth_entity_key by (auto dest: injD)
    then have "\<forall>y\<in>set xs. device_key_to_bluetooth_entity_key (fst y) \<notin> fst ` set (acc @ [(?k, sed)])"
      using Cons.prems(3) by auto
    from Cons.IH [OF rest this] show ?thesis
      using x dc Some upd
      by (simp add: to_sensor_key_def translated_description_def)
  qed
qed


lemma distinct_map_filter_keys:
  "distinct (map (\<lambda>x. f (fst x)) xs) \<Longrightarrow> (\<And>x y. t x = Some y \<Longrightarrow> fst y = f (fst x))
   \<Longrightarrow> distinct (map fst (List.map_filter t xs))"
proof (induction xs)
  case Nil
  then show ?case by simp
next
  case (Cons x xs)
  have IH: "distinct (map fst (List.map_filter t xs))" using Cons by simp
  show ?case
  proof (cases "t x")
    case None
    then show ?thesis using IH by simp
  next
    case (Some y)
    have "fst y = f (fst x)" using Some Cons.prems(2) by simp
    moreover have "f (fst x) \<notin> (\<lambda>x. f (fst x)) ` set xs" using Cons.prems(1) by simp
    moreover have "fst ` set (List.map_filter t xs) \<subseteq> (\<lambda>x. f (fst x)) ` set xs"
      using Cons.prems(2) by (force simp: List.map_filter_def)
    ultimately show ?thesis using IH Some by (auto simp:)
  qed
qed

lemma distinct_map_inj: "inj f \<Longrightarrow> distinct (map fst xs) \<Longrightarrow> distinct (map (\<lambda>x. f (fst x)) xs)"
  using distinct_map [of f "map fst xs"] by (simp add: comp_def inj_on_def inj_def)

lemma map_of_map_pairs:
  assumes "inj f" and "distinct (map fst xs)"
  shows "map_of (map (\<lambda>(k, v). (f k, g k v)) xs) (f k) = map_option (g k) (map_of xs k)"
  using assms(2)
proof (induction xs)
  case Nil
  then show ?case by simp
next
  case (Cons x xs)
  then show ?case using assms(1) by (auto simp: inj_def split: prod.splits)
qed

lemma sensor_update_result:
  fixes u :: "'v SensorUpdate"
  assumes "distinct (map fst (su_devices u))"
    and "distinct (map fst (su_entity_descriptions u))"
    and "distinct (map fst (su_entity_values u))"
    and "\<forall>x\<in>set (su_entity_descriptions u). sd_device_class (snd x) \<noteq> None"
  shows "sensor_update_to_bluetooth_data_update u =
     Inr \<lparr>pu_devices =
            map (\<lambda>(device_id, device_info).
                   (device_id, sensor_device_info_to_hass_device_info device_info device_id))
              (su_devices u),
          pu_entity_descriptions =
            List.map_filter translated_description (su_entity_descriptions u),
          pu_entity_names =
            map (\<lambda>(device_key, sensor_values).
                   (device_key_to_bluetooth_entity_key device_key, sv_name sensor_values))
              (su_entity_values u),
          pu_entity_data =
            map (\<lambda>(device_key, sensor_values).
                   (device_key_to_bluetooth_entity_key device_key, sv_native_value sensor_values))
              (su_entity_values u)\<rparr>"
proof -
  have dv: "distinct (map (\<lambda>x. device_key_to_bluetooth_entity_key (fst x)) (su_entity_values u))"
    using assms(3) inj_device_key_to_bluetooth_entity_key by (rule distinct_map_inj [rotated])
  have d1: "devices_comprehension (su_devices u) =
      map (\<lambda>(device_id, device_info).
             (device_id, sensor_device_info_to_hass_device_info device_info device_id))
        (su_devices u)"
    unfolding devices_comprehension_def
    using fold_update_fresh [where f = "\<lambda>k. k" and xs = "su_devices u" and acc = "[]"
        and g = "\<lambda>k v. sensor_device_info_to_hass_device_info v k"] assms(1)
    by simp
  have d2: "entity_descriptions_comprehension (su_entity_descriptions u) [] =
      Inr (List.map_filter translated_description (su_entity_descriptions u))"
    using entity_descriptions_comprehension_list [OF assms(4) assms(2), of "[]"] by simp
  have d3: "entity_names_comprehension (su_entity_values u) =
      map (\<lambda>(device_key, sensor_values).
             (device_key_to_bluetooth_entity_key device_key, sv_name sensor_values))
        (su_entity_values u)"
    unfolding entity_names_comprehension_def
    using fold_update_fresh [where f = device_key_to_bluetooth_entity_key
        and xs = "su_entity_values u" and acc = "[]" and g = "\<lambda>k v. sv_name v"] dv
    by simp
  have d4: "entity_data_comprehension (su_entity_values u) =
      map (\<lambda>(device_key, sensor_values).
             (device_key_to_bluetooth_entity_key device_key, sv_native_value sensor_values))
        (su_entity_values u)"
    unfolding entity_data_comprehension_def
    using fold_update_fresh [where f = device_key_to_bluetooth_entity_key
        and xs = "su_entity_values u" and acc = "[]" and g = "\<lambda>k v. sv_native_value v"] dv
    by simp
  show ?thesis
    unfolding sensor_update_to_bluetooth_data_update_def by (simp add: d1 d2 d3 d4)
qed

lemma set_map_filter: "y \<in> set (List.map_filter t xs) \<longleftrightarrow> (\<exists>x\<in>set xs. t x = Some y)"
  by (induction xs) (auto split: option.splits)

lemma translated_description_Some:
  "translated_description (dk, d) = Some (k, sed) \<longleftrightarrow>
     k = device_key_to_bluetooth_entity_key dk
     \<and> (\<exists>dc. sd_device_class d = Some dc
          \<and> map_of SENSOR_DESCRIPTIONS (dc, sd_native_unit_of_measurement d) = Some sed)"
  by (cases "sd_device_class d") (auto simp: translated_description_def)

lemma map_of_translated:
  assumes "distinct (map fst xs)"
  shows "map_of (List.map_filter translated_description xs) k = Some sed \<longleftrightarrow>
     (\<exists>dk d dc. map_of xs dk = Some d \<and> k = device_key_to_bluetooth_entity_key dk
        \<and> sd_device_class d = Some dc
        \<and> map_of SENSOR_DESCRIPTIONS (dc, sd_native_unit_of_measurement d) = Some sed)"
proof -
  have "distinct (map (\<lambda>x. device_key_to_bluetooth_entity_key (fst x)) xs)"
    using assms inj_device_key_to_bluetooth_entity_key by (rule distinct_map_inj [rotated])
  then have "distinct (map fst (List.map_filter translated_description xs))"
    by (rule distinct_map_filter_keys) (rule translated_description_key)
  then have "map_of (List.map_filter translated_description xs) k = Some sed \<longleftrightarrow>
      (k, sed) \<in> set (List.map_filter translated_description xs)"
    by simp
  also have "\<dots> \<longleftrightarrow> (\<exists>x\<in>set xs. translated_description x = Some (k, sed))"
    by (rule set_map_filter)
  also have "\<dots> \<longleftrightarrow> (\<exists>dk d. (dk, d) \<in> set xs \<and> translated_description (dk, d) = Some (k, sed))"
    by auto
  also have "\<dots> \<longleftrightarrow> (\<exists>dk d dc. map_of xs dk = Some d \<and> k = device_key_to_bluetooth_entity_key dk
        \<and> sd_device_class d = Some dc
        \<and> map_of SENSOR_DESCRIPTIONS (dc, sd_native_unit_of_measurement d) = Some sed)"
    using assms by (simp add: translated_description_Some)
  finally show ?thesis .
qed

lemma example_keys_distinct: "example_temperature_key \<noteq> example_humidity_key"
  by (simp add: example_temperature_key_def example_humidity_key_def)

lemma example_update_eval:
  "sensor_update_to_bluetooth_data_update example_update = Inr example_translated"
  by (simp add: sensor_update_to_bluetooth_data_update_def example_update_def
      example_translated_def devices_comprehension_def entity_names_comprehension_def
      entity_data_comprehension_def to_sensor_key_def SENSOR_DESCRIPTIONS_def
      device_key_to_bluetooth_entity_key_def sensor_device_info_to_hass_device_info_def
      DeviceInfo_empty_def DOMAIN_def example_temperature_key_def example_humidity_key_def)



subsection \<open>The translated update\<close>

text \<open>
  Claim C1, with the guard of \<open>to_sensor_key\<close> as a hypothesis. For every sensor update \<open>u\<close> in which every entity description
  has a device class (the three dicts of \<open>u\<close> being dicts, that is, without a repeated
  key), \<open>sensor_update_to_bluetooth_data_update u\<close> returns an update \<open>r\<close> such that:
  the keys of \<open>pu_devices r\<close> are the keys of \<open>su_devices u\<close>, and each device is
  mapped to its conversion by \<open>sensor_device_info_to_hass_device_info\<close>; the keys of
  \<open>pu_entity_data r\<close> and of \<open>pu_entity_names r\<close> are the converted device keys of
  \<open>su_entity_values u\<close>, mapped to the native value and to the name of the sensor
  value; and \<open>pu_entity_descriptions r\<close> maps a key to a description exactly when the
  key is the converted key of an entry of \<open>su_entity_descriptions u\<close> whose pair of
  device class and unit is a key of \<open>SENSOR_DESCRIPTIONS\<close>, the description being the
  one found there.
\<close>

theorem sensor_update_translation:
  fixes u :: "'v SensorUpdate"
  assumes "distinct (map fst (su_devices u))"
    and "distinct (map fst (su_entity_descriptions u))"
    and "distinct (map fst (su_entity_values u))"
    and "\<forall>x\<in>set (su_entity_descriptions u). sd_device_class (snd x) \<noteq> None"
  shows "\<exists>r. sensor_update_to_bluetooth_data_update u = Inr r
     \<and> map fst (pu_devices r) = map fst (su_devices u)
     \<and> (\<forall>device_id info. map_of (su_devices u) device_id = Some info \<longrightarrow>
           map_of (pu_devices r) device_id
             = Some (sensor_device_info_to_hass_device_info info device_id))
     \<and> map fst (pu_entity_data r)
         = map device_key_to_bluetooth_entity_key (map fst (su_entity_values u))
     \<and> (\<forall>dk sv. map_of (su_entity_values u) dk = Some sv \<longrightarrow>
           map_of (pu_entity_data r) (device_key_to_bluetooth_entity_key dk)
             = Some (sv_native_value sv))
     \<and> map fst (pu_entity_names r)
         = map device_key_to_bluetooth_entity_key (map fst (su_entity_values u))
     \<and> (\<forall>dk sv. map_of (su_entity_values u) dk = Some sv \<longrightarrow>
           map_of (pu_entity_names r) (device_key_to_bluetooth_entity_key dk)
             = Some (sv_name sv))
     \<and> (\<forall>k sed. map_of (pu_entity_descriptions r) k = Some sed \<longleftrightarrow>
           (\<exists>dk d dc. map_of (su_entity_descriptions u) dk = Some d
              \<and> k = device_key_to_bluetooth_entity_key dk
              \<and> sd_device_class d = Some dc
              \<and> map_of SENSOR_DESCRIPTIONS (dc, sd_native_unit_of_measurement d) = Some sed))"
proof -
  let ?ek = device_key_to_bluetooth_entity_key
  let ?r = "\<lparr>pu_devices =
            map (\<lambda>(device_id, device_info).
                   (device_id, sensor_device_info_to_hass_device_info device_info device_id))
              (su_devices u),
          pu_entity_descriptions =
            List.map_filter translated_description (su_entity_descriptions u),
          pu_entity_names =
            map (\<lambda>(device_key, sensor_values). (?ek device_key, sv_name sensor_values))
              (su_entity_values u),
          pu_entity_data =
            map (\<lambda>(device_key, sensor_values). (?ek device_key, sv_native_value sensor_values))
              (su_entity_values u)\<rparr>"
  have r: "sensor_update_to_bluetooth_data_update u = Inr ?r"
    using assms by (rule sensor_update_result)
  have k1: "map fst (pu_devices ?r) = map fst (su_devices u)"
    by (simp add: case_prod_unfold comp_def)
  have v1: "\<forall>device_id info. map_of (su_devices u) device_id = Some info \<longrightarrow>
      map_of (pu_devices ?r) device_id
        = Some (sensor_device_info_to_hass_device_info info device_id)"
    using map_of_map_pairs [where f = "\<lambda>k. k" and xs = "su_devices u"
        and g = "\<lambda>k v. sensor_device_info_to_hass_device_info v k"] assms(1)
    by simp
  have k2: "map fst (pu_entity_data ?r) = map ?ek (map fst (su_entity_values u))"
    by (simp add: case_prod_unfold comp_def)
  have v2: "\<forall>dk sv. map_of (su_entity_values u) dk = Some sv \<longrightarrow>
      map_of (pu_entity_data ?r) (?ek dk) = Some (sv_native_value sv)"
    using map_of_map_pairs [OF inj_device_key_to_bluetooth_entity_key assms(3),
        where g = "\<lambda>k v. sv_native_value v"]
    by simp
  have k3: "map fst (pu_entity_names ?r) = map ?ek (map fst (su_entity_values u))"
    by (simp add: case_prod_unfold comp_def)
  have v3: "\<forall>dk sv. map_of (su_entity_values u) dk = Some sv \<longrightarrow>
      map_of (pu_entity_names ?r) (?ek dk) = Some (sv_name sv)"
    using map_of_map_pairs [OF inj_device_key_to_bluetooth_entity_key assms(3),
        where g = "\<lambda>k v. sv_name v"]
    by simp
  have v4: "\<forall>k sed. map_of (pu_entity_descriptions ?r) k = Some sed \<longleftrightarrow>
      (\<exists>dk d dc. map_of (su_entity_descriptions u) dk = Some d \<and> k = ?ek dk
         \<and> sd_device_class d = Some dc
         \<and> map_of SENSOR_DESCRIPTIONS (dc, sd_native_unit_of_measurement d) = Some sed)"
    using map_of_translated [OF assms(2)] by simp
  from r k1 v1 k2 v2 k3 v3 v4 show ?thesis by blast
qed

theorem sensor_update_translation_witness:
  "distinct (map fst (su_devices example_update))
   \<and> distinct (map fst (su_entity_descriptions example_update))
   \<and> distinct (map fst (su_entity_values example_update))
   \<and> map (\<lambda>x. sd_device_class (snd x)) (su_entity_descriptions example_update)
       = [Some TEMPERATURE, Some (OtherDeviceClass ''humidity'')]
   \<and> (\<exists>r. sensor_update_to_bluetooth_data_update example_update = Inr r
        \<and> map fst (pu_devices r) = [None]
        \<and> map_of (pu_entity_data r) (device_key_to_bluetooth_entity_key example_temperature_key)
            = Some 37
        \<and> map_of (pu_entity_names r) (device_key_to_bluetooth_entity_key example_humidity_key)
            = Some ''Humidity'')"
proof -
  have h1: "distinct (map fst (su_devices example_update))"
    by (simp add: example_update_def)
  have h2: "distinct (map fst (su_entity_descriptions example_update))"
    by (simp add: example_update_def example_keys_distinct)
  have h3: "distinct (map fst (su_entity_values example_update))"
    by (simp add: example_update_def example_keys_distinct)
  have h4: "\<forall>x\<in>set (su_entity_descriptions example_update). sd_device_class (snd x) \<noteq> None"
    by (simp add: example_update_def)
  have h4': "map (\<lambda>x. sd_device_class (snd x)) (su_entity_descriptions example_update)
       = [Some TEMPERATURE, Some (OtherDeviceClass ''humidity'')]"
    by (simp add: example_update_def)
  from sensor_update_translation [OF h1 h2 h3 h4]
  obtain r where r: "sensor_update_to_bluetooth_data_update example_update = Inr r"
    and k: "map fst (pu_devices r) = map fst (su_devices example_update)"
    and d: "\<forall>dk sv. map_of (su_entity_values example_update) dk = Some sv \<longrightarrow>
           map_of (pu_entity_data r) (device_key_to_bluetooth_entity_key dk)
             = Some (sv_native_value sv)"
    and n: "\<forall>dk sv. map_of (su_entity_values example_update) dk = Some sv \<longrightarrow>
           map_of (pu_entity_names r) (device_key_to_bluetooth_entity_key dk)
             = Some (sv_name sv)"
    by blast
  have "map fst (pu_devices r) = [None]"
    using k by (simp add: example_update_def)
  moreover have "map_of (pu_entity_data r)
      (device_key_to_bluetooth_entity_key example_temperature_key) = Some 37"
    using d [rule_format, of example_temperature_key] by (simp add: example_update_def)
  moreover have "map_of (pu_entity_names r)
      (device_key_to_bluetooth_entity_key example_humidity_key) = Some ''Humidity''"
    using n [rule_format, of example_humidity_key]
    by (simp add: example_update_def example_keys_distinct [symmetric])
  ultimately have "\<exists>r. sensor_update_to_bluetooth_data_update example_update = Inr r
        \<and> map fst (pu_devices r) = [None]
        \<and> map_of (pu_entity_data r) (device_key_to_bluetooth_entity_key example_temperature_key)
            = Some 37
        \<and> map_of (pu_entity_names r) (device_key_to_bluetooth_entity_key example_humidity_key)
            = Some ''Humidity''"
    using r by (intro exI [of _ r] conjI)
  with h1 h2 h3 h4' show ?thesis by (intro conjI)
qed

text \<open>
  Claim C1 as stated promises a returned update for every sensor update. An entity
  description without a device class makes the assertion of \<open>to_sensor_key\<close> fail:
  nothing is returned.
\<close>

theorem sensor_update_raises_counterexample:
  "sensor_update_to_bluetooth_data_update example_update_without_device_class
     = Inl AssertionError"
  by (simp add: sensor_update_to_bluetooth_data_update_def
      example_update_without_device_class_def to_sensor_key_def)

subsection \<open>The sensor kinds\<close>



subsection \<open>Values and names\<close>

text \<open>
  Claim C9. Whenever the translation returns an update, its \<open>entity_data\<close> and its
  \<open>entity_names\<close> have the same keys, in the same order: the converted device keys
  of \<open>su_entity_values\<close>.
\<close>

theorem entity_data_names_same_keys:
  "sensor_update_to_bluetooth_data_update u = Inr r
   \<Longrightarrow> map fst (pu_entity_data r) = map fst (pu_entity_names r)
     \<and> fst ` set (pu_entity_data r)
         = device_key_to_bluetooth_entity_key ` fst ` set (su_entity_values u)"
proof -
  assume "sensor_update_to_bluetooth_data_update u = Inr r"
  then have r: "pu_entity_data r = entity_data_comprehension (su_entity_values u)"
      "pu_entity_names r = entity_names_comprehension (su_entity_values u)"
    by (auto simp: sensor_update_to_bluetooth_data_update_def split: sum.splits)
  have "map fst (pu_entity_data r) = map fst (pu_entity_names r)"
    unfolding r entity_data_comprehension_def entity_names_comprehension_def
    by (rule fold_update_keys) simp
  moreover have "fst ` set (pu_entity_data r)
      = device_key_to_bluetooth_entity_key ` fst ` set (su_entity_values u)"
    unfolding r entity_data_comprehension_def
    by (simp add: fold_update_dom image_image)
  ultimately show ?thesis by simp
qed

theorem entity_data_names_same_keys_witness:
  "sensor_update_to_bluetooth_data_update example_update = Inr example_translated
   \<and> map fst (pu_entity_data example_translated) = map fst (pu_entity_names example_translated)
   \<and> fst ` set (pu_entity_data example_translated)
       = device_key_to_bluetooth_entity_key ` fst ` set (su_entity_values example_update)"
  using entity_data_names_same_keys [OF example_update_eval] example_update_eval by blast

section \<open>Properties of the sensor entity\<close>

text \<open>
  Claim C5. The unique ID that \<^verbatim>\<open>__init__\<close> gives an entity is the string
  \<^verbatim>\<open>f"{device_id}-{key}"\<close> of the two fields of its entity key, whatever the base class
  initialiser, the processor, the description and the context are: two entities built
  from the same entity key, in any two runs, have the same unique ID.
\<close>

theorem unique_id_from_entity_key:
  "se_attr_unique_id
     (FeverSmartBluetoothSensorEntity_init super_init processor entity_key description context)
     = Some (format_str (ek_device_id entity_key) @ ''-'' @ ek_key entity_key)
   \<and> se_attr_unique_id
       (FeverSmartBluetoothSensorEntity_init super_init processor entity_key description context)
     = se_attr_unique_id
         (FeverSmartBluetoothSensorEntity_init super_init' processor' entity_key description'
            context')"
  by (simp add: FeverSmartBluetoothSensorEntity_init_def Let_def)

theorem unique_id_from_entity_key_witness:
  "se_attr_unique_id
     (FeverSmartBluetoothSensorEntity_init
        (\<lambda>p k d c. \<lparr>se_entity_key = k, se_attr_device_info = None, se_attr_unique_id = None,
                     se_base = (p, d, c)\<rparr>)
        ''processor 1'' example_entity_key ''first run'' True)
     = Some ''FS-1A2B-temperature''
   \<and> se_attr_unique_id
       (FeverSmartBluetoothSensorEntity_init
          (\<lambda>p k d c. \<lparr>se_entity_key = k, se_attr_device_info = None,
                       se_attr_unique_id = Some ''stale'', se_base = ()\<rparr>)
          ''processor 2'' example_entity_key ''second run'' False)
     = Some ''FS-1A2B-temperature''"
  using unique_id_from_entity_key
    [of "\<lambda>p k d c. \<lparr>se_entity_key = k, se_attr_device_info = None, se_attr_unique_id = None,
                     se_base = (p, d, c)\<rparr>" "''processor 1''" example_entity_key "''first run''" True
        "\<lambda>p k d c. \<lparr>se_entity_key = k, se_attr_device_info = None,
                       se_attr_unique_id = Some ''stale'', se_base = ()\<rparr>"
        "''processor 2''" "''second run''" False]
  by (auto simp: example_entity_key_def)

text \<open>
  Claim C8 says that \<open>sensor_device_info_to_hass_device_info\<close> and \<^verbatim>\<open>__init__\<close> write
  the same set of identifiers for the same device ID. They do not, for any device ID:
  the first writes the set of the two values \<^verbatim>\<open>DOMAIN\<close> and \<^verbatim>\<open>device_id\<close>, the second the
  set of the one pair \<^verbatim>\<open>(DOMAIN, f"{device_id}")\<close>.
\<close>

theorem identifiers_differ:
  "di_identifiers (sensor_device_info_to_hass_device_info sensor_device_info device_id)
     = Some {PyStr DOMAIN, py_of_optional_str device_id}
   \<and> map_option di_identifiers
       (se_attr_device_info
          (FeverSmartBluetoothSensorEntity_init super_init processor
             \<lparr>ek_key = key, ek_device_id = device_id\<rparr> description context))
     = Some (Some {PyTuple DOMAIN (format_str device_id)})
   \<and> {PyStr DOMAIN, py_of_optional_str device_id} \<noteq> {PyTuple DOMAIN (format_str device_id)}"
  by (auto simp: sensor_device_info_to_hass_device_info_def
      FeverSmartBluetoothSensorEntity_init_def Let_def DeviceInfo_empty_def
      split: option.splits)

section \<open>Properties of the coordinator\<close>

text \<open>
  Claim C2. \<^verbatim>\<open>_async_start\<close> hands two entries to the Bluetooth manager. The only
  callback for advertisements among them is \<^verbatim>\<open>_async_handle_bluetooth_event\<close>, with a
  matcher whose manufacturer ID is 8199, whose \<^verbatim>\<open>connectable\<close> is \<^verbatim>\<open>False\<close> (whatever
  the \<^verbatim>\<open>connectable\<close> of the coordinator is) and that sets no other key; the other
  entry tracks the unavailability of the address. Both cancel handles are appended to
  \<^verbatim>\<open>_on_stop\<close>.
\<close>

theorem async_start_registers:
  "fst (async_start hass self) =
     hass @
     [Callback async_handle_bluetooth_event
        \<lparr>bm_address = None, bm_local_name = None, bm_service_uuid = None,
         bm_service_data_uuid = None, bm_manufacturer_id = Some 8199,
         bm_manufacturer_data_start = None, bm_connectable = Some False\<rparr>
        (co_mode self),
      Unavailable async_handle_unavailable (co_address self) (co_connectable self)]
   \<and> filter is_callback (drop (length hass) (fst (async_start hass self))) =
     [Callback async_handle_bluetooth_event
        \<lparr>bm_address = None, bm_local_name = None, bm_service_uuid = None,
         bm_service_data_uuid = None, bm_manufacturer_id = Some 8199,
         bm_manufacturer_data_start = None, bm_connectable = Some False\<rparr>
        (co_mode self)]
   \<and> co_on_stop (snd (async_start hass self))
     = co_on_stop self @ [length hass, Suc (length hass)]"
  by (simp add: async_start_def async_register_callback_def async_track_unavailable_def
      BluetoothCallbackMatcher_empty_def)

theorem async_start_registers_witness:
  "filter is_callback (drop (length ([] :: registration list))
     (fst (async_start [] example_coordinator))) =
     [Callback async_handle_bluetooth_event
        \<lparr>bm_address = None, bm_local_name = None, bm_service_uuid = None,
         bm_service_data_uuid = None, bm_manufacturer_id = Some 8199,
         bm_manufacturer_data_start = None, bm_connectable = Some False\<rparr>
        PASSIVE]"
  using async_start_registers [of "[]" example_coordinator]
  by (simp add: example_coordinator_def)

section \<open>Properties of the config flow\<close>

lemma example_parse_supported:
  "ap_supported (example_parse example_fever_smart)"
  "\<not> ap_supported (example_parse example_other_device)"
  "ap_primary_device_id (example_parse example_fever_smart) = ''FS-1A2B''"
  by (simp_all add: example_parse_def example_fever_smart_def example_other_device_def)


lemma example_scan:
  "scan_discovered example_parse [''AA:BB:CC:DD:EE:FF'']
     (ha_discovered_service_info (example_hass [''AA:BB:CC:DD:EE:FF''])) [] = []"
  "scan_discovered example_parse []
     (ha_discovered_service_info (example_hass [])) [] = [(''AA:BB:CC:DD:EE:FF'', ''FS-1A2B'')]"
  by (simp_all add: example_hass_def example_parse_def example_fever_smart_def
      example_other_device_def Let_def)

text \<open>
  Claim C7. In the Bluetooth discovery step, when the parser does not support the
  advertisement the flow aborts with \<^verbatim>\<open>not_supported\<close> and its state is unchanged
  (no discovery info, no discovered device and no unique ID is recorded). When the
  parser supports it, the unique ID of the flow becomes the primary device ID of the
  parser, and when that ID is the unique ID of a configured entry the step ends in
  \<^verbatim>\<open>AbortFlow("already_configured")\<close>, with only the unique ID recorded: no form is
  shown and no entry is created.
\<close>

theorem bluetooth_step:
  "(\<not> ap_supported (parse discovery_info) \<longrightarrow>
      async_step_bluetooth parse hass self discovery_info
        = (Inr (Abort ''not_supported''), hass, self))
   \<and> (ap_supported (parse discovery_info) \<longrightarrow>
        ctx_unique_id (cf_context (snd (snd (async_step_bluetooth parse hass self discovery_info))))
          = Some (ap_primary_device_id (parse discovery_info)))
   \<and> (ap_supported (parse discovery_info)
        \<and> ap_primary_device_id (parse discovery_info) \<in> set (ha_current_ids hass) \<longrightarrow>
        async_step_bluetooth parse hass self discovery_info
          = (Inl (AbortFlow ''already_configured''), hass,
             self\<lparr>cf_context :=
                    (cf_context self)\<lparr>ctx_unique_id :=
                                        Some (ap_primary_device_id (parse discovery_info))\<rparr>\<rparr>))"
  by (simp add: async_step_bluetooth_def async_set_unique_id_def
      abort_if_unique_id_configured_def async_step_bluetooth_confirm_def Let_def)

theorem bluetooth_step_witness:
  "\<not> ap_supported (example_parse example_other_device)
   \<and> async_step_bluetooth example_parse (example_hass [''FS-1A2B''])
         (ConfigFlow_init example_context) example_other_device
       = (Inr (Abort ''not_supported''), example_hass [''FS-1A2B''],
          ConfigFlow_init example_context)
   \<and> ap_supported (example_parse example_fever_smart)
   \<and> ap_primary_device_id (example_parse example_fever_smart)
       \<in> set (ha_current_ids (example_hass [''FS-1A2B'']))
   \<and> async_step_bluetooth example_parse (example_hass [''FS-1A2B''])
         (ConfigFlow_init example_context) example_fever_smart
       = (Inl (AbortFlow ''already_configured''), example_hass [''FS-1A2B''],
          (ConfigFlow_init example_context)
            \<lparr>cf_context := example_context\<lparr>ctx_unique_id := Some ''FS-1A2B''\<rparr>\<rparr>)"
proof -
  have c: "ap_primary_device_id (example_parse example_fever_smart)
       \<in> set (ha_current_ids (example_hass [''FS-1A2B'']))"
    by (simp add: example_parse_supported example_hass_def)
  have "async_step_bluetooth example_parse (example_hass [''FS-1A2B''])
         (ConfigFlow_init example_context) example_other_device
       = (Inr (Abort ''not_supported''), example_hass [''FS-1A2B''],
          ConfigFlow_init example_context)"
    using bluetooth_step [of example_parse example_other_device "example_hass [''FS-1A2B'']"
        "ConfigFlow_init example_context"] example_parse_supported(2)
    by blast
  moreover have "async_step_bluetooth example_parse (example_hass [''FS-1A2B''])
         (ConfigFlow_init example_context) example_fever_smart
       = (Inl (AbortFlow ''already_configured''), example_hass [''FS-1A2B''],
          (ConfigFlow_init example_context)
            \<lparr>cf_context := example_context\<lparr>ctx_unique_id := Some ''FS-1A2B''\<rparr>\<rparr>)"
    using bluetooth_step [of example_parse example_fever_smart "example_hass [''FS-1A2B'']"
        "ConfigFlow_init example_context"] example_parse_supported(1) c
    by (simp add: example_parse_supported(3) ConfigFlow_init_def)
  ultimately show ?thesis using example_parse_supported(1,2) c by (intro conjI)
qed



text \<open>
  Claim C4 says that every path that creates or updates an entry stores a key that
  the user was asked for. The user step does not: its form asks for the address only,
  and it stores the constant \<^verbatim>\<open>"0m0d3s2c"\<close>, whatever the user input holds. The
  confirm step of the discovery path asks for the key and stores the one supplied.
\<close>

theorem user_step_stores_fixed_key:
  "async_step_user example_parse (example_hass []) (ConfigFlow_init example_context) None
     = (Inr (Form ''user'' [(''address'', In [(''AA:BB:CC:DD:EE:FF'', ''FS-1A2B'')])] None None),
        example_hass [], example_flow_scanned)
   \<and> fst (async_step_user example_parse (example_hass []) example_flow_scanned
            (Some [(''address'', ''AA:BB:CC:DD:EE:FF'')]))
       = Inr (CreateEntry ''FS-1A2B'' [(''key'', ''0m0d3s2c'')])
   \<and> fst (async_step_user example_parse (example_hass []) example_flow_scanned
            (Some [(''address'', ''AA:BB:CC:DD:EE:FF''), (''key'', ''secret'')]))
       = Inr (CreateEntry ''FS-1A2B'' [(''key'', ''0m0d3s2c'')])
   \<and> async_step_bluetooth example_parse (example_hass []) (ConfigFlow_init example_context)
       example_fever_smart
     = (Inr (Form ''bluetooth_confirm'' [(''key'', All_str_Strip)]
               (Some [(''name'', ''FS-1A2B'')]) (Some [])),
        example_hass [], example_flow_discovered)
   \<and> fst (async_step_bluetooth_confirm (example_hass []) example_flow_discovered
            (Some [(''key'', ''secret'')]))
       = Inr (CreateEntry ''FS-1A2B'' [(''key'', ''secret'')])"
proof (intro conjI)
  show "async_step_user example_parse (example_hass []) (ConfigFlow_init example_context) None
     = (Inr (Form ''user'' [(''address'', In [(''AA:BB:CC:DD:EE:FF'', ''FS-1A2B'')])] None None),
        example_hass [], example_flow_scanned)"
    using example_scan(2)
    by (simp add: async_step_user_def Let_def CONF_ADDRESS_def example_flow_scanned_def
        ConfigFlow_init_def example_hass_def)
next
  show "fst (async_step_user example_parse (example_hass []) example_flow_scanned
            (Some [(''address'', ''AA:BB:CC:DD:EE:FF'')]))
       = Inr (CreateEntry ''FS-1A2B'' [(''key'', ''0m0d3s2c'')])"
    by (simp add: async_step_user_def Let_def CONF_ADDRESS_def example_flow_scanned_def
        ConfigFlow_init_def example_hass_def example_context_def async_set_unique_id_def
        abort_if_unique_id_configured_def async_get_or_create_entry_def)
next
  show "fst (async_step_user example_parse (example_hass []) example_flow_scanned
            (Some [(''address'', ''AA:BB:CC:DD:EE:FF''), (''key'', ''secret'')]))
       = Inr (CreateEntry ''FS-1A2B'' [(''key'', ''0m0d3s2c'')])"
    by (simp add: async_step_user_def Let_def CONF_ADDRESS_def example_flow_scanned_def
        ConfigFlow_init_def example_hass_def example_context_def async_set_unique_id_def
        abort_if_unique_id_configured_def async_get_or_create_entry_def)
next
  show "async_step_bluetooth example_parse (example_hass []) (ConfigFlow_init example_context)
       example_fever_smart
     = (Inr (Form ''bluetooth_confirm'' [(''key'', All_str_Strip)]
               (Some [(''name'', ''FS-1A2B'')]) (Some [])),
        example_hass [], example_flow_discovered)"
    by (simp add: async_step_bluetooth_def async_step_bluetooth_confirm_def Let_def
        example_parse_supported async_set_unique_id_def abort_if_unique_id_configured_def
        ConfigFlow_init_def example_hass_def example_context_def example_flow_discovered_def)
      (simp add: example_parse_def example_fever_smart_def)
next
  show "fst (async_step_bluetooth_confirm (example_hass []) example_flow_discovered
            (Some [(''key'', ''secret'')]))
       = Inr (CreateEntry ''FS-1A2B'' [(''key'', ''secret'')])"
    by (simp add: async_step_bluetooth_confirm_def example_flow_discovered_def
        async_get_or_create_entry_def)
qed

end
